theory Spec2Isabelle
  imports Main
begin

section \<open>The header \<^verbatim>\<open>CUE4Parse-Natives/cue4parse_c_api.h\<close>\<close>

text \<open>
  The repository's source is one C header of sixteen lines.  It holds no function body:
  its content is preprocessor directives, a guarded \<^verbatim>\<open>extern "C"\<close> block and one
  function prototype.  The header is embedded the way it is written, one value per
  source line, and the two language mechanisms it relies on are embedded as executable
  functions over these lines: conditional inclusion (\<^verbatim>\<open>#ifdef\<close> / \<^verbatim>\<open>#endif\<close>) and
  linkage blocks (\<^verbatim>\<open>extern "C" {\<close> ... \<^verbatim>\<open>}\<close>).

  Two things the header refers to are not part of the source and stay uninterpreted:
  the contents of the three included files (\<^verbatim>\<open>Framework.h\<close>, \<^verbatim>\<open>stdint.h\<close>,
  \<^verbatim>\<open>stdbool.h\<close>), kept as include lines, and the macro \<^verbatim>\<open>DLLEXPORT\<close>, kept as the
  unexpanded name in front of the prototype.
\<close>

subsection \<open>Types and declarations\<close>

text \<open>The C types the prototype is written with: \<^verbatim>\<open>bool\<close>, \<^verbatim>\<open>char\<close>, the qualifier
  \<^verbatim>\<open>const\<close> and the pointer declarator.\<close>

datatype base_type = CBool | CChar

datatype ctype = Base base_type | Const ctype | Ptr ctype

record param =
  ptype :: ctype
  pname :: string

text \<open>A function prototype: the tokens in front of the return type, the return type, the
  name and the parameter list.\<close>

record fundecl =
  specifiers :: "string list"
  ret :: ctype
  fname :: string
  params :: "param list"

subsection \<open>The lines of the header\<close>

datatype line =
    Blank
  | Pragma string
  | IncludeLocal string
  | IncludeSystem string
  | Ifdef string
  | Endif
  | ExternOpen string
  | CloseBrace
  | Comment string
  | FunDecl fundecl

text \<open>Line 12: \<^verbatim>\<open>DLLEXPORT bool IsFeatureAvailable(const char* feature);\<close>\<close>

definition IsFeatureAvailable_decl :: fundecl where
  "IsFeatureAvailable_decl =
     \<lparr>specifiers = [''DLLEXPORT''],
      ret = Base CBool,
      fname = ''IsFeatureAvailable'',
      params = [\<lparr>ptype = Ptr (Const (Base CChar)), pname = ''feature''\<rparr>]\<rparr>"

text \<open>The file, line 1 to line 16 (the last line has no newline after it).\<close>

definition cue4parse_c_api_h :: "line list" where
  "cue4parse_c_api_h =
    [Pragma ''once'',
     Blank,
     IncludeLocal ''Framework.h'',
     IncludeSystem ''stdint.h'',
     IncludeSystem ''stdbool.h'',
     Blank,
     Ifdef ''__cplusplus'',
     ExternOpen ''C'',
     Endif,
     Blank,
     Comment ''Simple feature availability check - this is what's currently implemented'',
     FunDecl IsFeatureAvailable_decl,
     Blank,
     Ifdef ''__cplusplus'',
     CloseBrace,
     Endif]"

subsection \<open>Conditional inclusion\<close>

text \<open>
  \<open>preprocess defs stk ls\<close> keeps the lines of \<open>ls\<close> that lie in no skipped group.
  \<open>defs\<close> are the names of the macros that are defined, \<open>stk\<close> holds one flag per
  open \<^verbatim>\<open>#ifdef\<close>.  An \<^verbatim>\<open>#endif\<close> with no open group and a group left open at the end
  of the file are errors (\<open>None\<close>).
\<close>

fun preprocess :: "string list \<Rightarrow> bool list \<Rightarrow> line list \<Rightarrow> line list option" where
  "preprocess defs stk [] = (if stk = [] then Some [] else None)"
| "preprocess defs stk (Ifdef m # ls) = preprocess defs ((m \<in> set defs) # stk) ls"
| "preprocess defs stk (Endif # ls) =
     (case stk of [] \<Rightarrow> None | _ # stk' \<Rightarrow> preprocess defs stk' ls)"
| "preprocess defs stk (l # ls) =
     (if list_all (\<lambda>b. b) stk then map_option ((#) l) (preprocess defs stk ls)
      else preprocess defs stk ls)"

subsection \<open>Language and linkage\<close>

text \<open>The header is read by a C compiler or by a C++ compiler; the macro
  \<^verbatim>\<open>__cplusplus\<close> is defined exactly in the second case.\<close>

datatype language = LangC | LangCxx

definition language_of :: "string list \<Rightarrow> language" where
  "language_of defs = (if ''__cplusplus'' \<in> set defs then LangCxx else LangC)"

datatype linkage = LinkC | LinkCxx

fun default_linkage :: "language \<Rightarrow> linkage" where
  "default_linkage LangC = LinkC"
| "default_linkage LangCxx = LinkCxx"

text \<open>
  \<open>declared lang blocks ls\<close> collects the prototypes of preprocessed lines, each with the
  language linkage it gets: that of the innermost open linkage block, or the language's
  own outside every block.  A linkage block is C++ syntax: in C it is an error, as are a
  closing brace with no open block and a block left open.
\<close>

fun declared :: "language \<Rightarrow> linkage list \<Rightarrow> line list \<Rightarrow> (linkage \<times> fundecl) list option" where
  "declared lang blocks [] = (if blocks = [] then Some [] else None)"
| "declared lang blocks (ExternOpen s # ls) =
     (if lang = LangCxx \<and> s = ''C'' then declared lang (LinkC # blocks) ls
      else if lang = LangCxx \<and> s = ''C++'' then declared lang (LinkCxx # blocks) ls
      else None)"
| "declared lang blocks (CloseBrace # ls) =
     (case blocks of [] \<Rightarrow> None | _ # blocks' \<Rightarrow> declared lang blocks' ls)"
| "declared lang blocks (FunDecl d # ls) =
     map_option
       ((#) (case blocks of [] \<Rightarrow> default_linkage lang | k # _ \<Rightarrow> k, d))
       (declared lang blocks ls)"
| "declared lang blocks (_ # ls) = declared lang blocks ls"

text \<open>What a translation unit that includes the header gets from the header's own lines.\<close>

definition interface :: "string list \<Rightarrow> (linkage \<times> fundecl) list option" where
  "interface defs =
     Option.bind (preprocess defs [] cue4parse_c_api_h) (declared (language_of defs) [])"

fun lookup_fun :: "string \<Rightarrow> (linkage \<times> fundecl) list \<Rightarrow> fundecl option" where
  "lookup_fun n [] = None"
| "lookup_fun n ((k, d) # ds) = (if fname d = n then Some d else lookup_fun n ds)"

text \<open>The prototype a translation unit sees under a given name, if the header gives one.\<close>

definition signature_of :: "string list \<Rightarrow> string \<Rightarrow> fundecl option" where
  "signature_of defs n = Option.bind (interface defs) (lookup_fun n)"


section \<open>The interface in both languages\<close>

lemma preprocess_header_cxx:
  "''__cplusplus'' \<in> set defs \<Longrightarrow>
   preprocess defs [] cue4parse_c_api_h =
     Some [Pragma ''once'', Blank, IncludeLocal ''Framework.h'', IncludeSystem ''stdint.h'',
           IncludeSystem ''stdbool.h'', Blank, ExternOpen ''C'', Blank,
           Comment ''Simple feature availability check - this is what's currently implemented'',
           FunDecl IsFeatureAvailable_decl, Blank, CloseBrace]"
  by (simp add: cue4parse_c_api_h_def)

lemma preprocess_header_c:
  "''__cplusplus'' \<notin> set defs \<Longrightarrow>
   preprocess defs [] cue4parse_c_api_h =
     Some [Pragma ''once'', Blank, IncludeLocal ''Framework.h'', IncludeSystem ''stdint.h'',
           IncludeSystem ''stdbool.h'', Blank, Blank,
           Comment ''Simple feature availability check - this is what's currently implemented'',
           FunDecl IsFeatureAvailable_decl, Blank]"
  by (simp add: cue4parse_c_api_h_def)

lemma interface_header:
  "interface defs = Some [(LinkC, IsFeatureAvailable_decl)]"
proof (cases "''__cplusplus'' \<in> set defs")
  case True
  then show ?thesis
    by (simp add: interface_def language_of_def preprocess_header_cxx)
next
  case False
  then show ?thesis
    by (simp add: interface_def language_of_def preprocess_header_c)
qed

lemma signature_of_IsFeatureAvailable:
  "signature_of defs ''IsFeatureAvailable'' = Some IsFeatureAvailable_decl"
  by (simp add: signature_of_def interface_header IsFeatureAvailable_decl_def)


subsection \<open>What the guards of lines 7 to 9 and 14 to 16 are for\<close>

text \<open>Without the linkage block a C++ translation unit gives the prototype C++ linkage,
  and a linkage block that is not guarded by \<^verbatim>\<open>__cplusplus\<close> is rejected in C; a stray
  \<^verbatim>\<open>#endif\<close> is rejected in both.\<close>

lemma declared_without_block:
  "declared LangCxx [] [FunDecl d] = Some [(LinkCxx, d)]"
  by simp

lemma declared_unguarded_block_in_C:
  "declared LangC [] [ExternOpen ''C'', FunDecl d, CloseBrace] = None"
  by simp

lemma preprocess_stray_endif:
  "preprocess defs [] (Endif # ls) = None"
  by simp

section \<open>The signature\<close>

text \<open>
  Claim C2.  The operation \<^verbatim>\<open>IsFeatureAvailable\<close> takes exactly one parameter, a string
  naming a feature, and its result type is boolean.

  Whatever macros are defined, so for a C and for a C++ translation unit alike, the
  header gives \<^verbatim>\<open>IsFeatureAvailable\<close> a prototype with a parameter list of length one;
  the parameter is named \<^verbatim>\<open>feature\<close> and has the type pointer to \<^verbatim>\<open>const char\<close>, the C
  type of a null-terminated string that is only read; the return type is \<^verbatim>\<open>bool\<close>.
\<close>

theorem IsFeatureAvailable_signature:
  "map_option (\<lambda>d. (length (params d), map pname (params d), map ptype (params d), ret d))
     (signature_of defs ''IsFeatureAvailable'')
   = Some (1, [''feature''], [Ptr (Const (Base CChar))], Base CBool)"
  by (simp add: signature_of_IsFeatureAvailable) (simp add: IsFeatureAvailable_decl_def)

section \<open>The whole interface\<close>


end
